theory Spec2Isabelle
  imports Complex_Main "HOL-Library.AList"
begin

section \<open>Python values\<close>

text \<open>
  A Python \<open>str\<close> is a sequence of Unicode code points, and \<open>len\<close> counts code points.
  A string is therefore a list of code points (natural numbers); \<open>u\<close> embeds the ASCII
  literals of the source. Dictionary keys are the literal key names.
\<close>

type_synonym ustring = "nat list"

definition u :: "string \<Rightarrow> ustring" where
  "u s = map of_char s"

text \<open>
  The values stored in the analysis dictionary: the token list, a float (modelled by the
  real number it denotes), an integer count and a string. The thresholds \<open>0.25\<close> and
  \<open>0.5\<close> of the source are exact binary fractions, and no double lies strictly between the
  double nearest to \<open>0.15\<close> and the real \<open>0.15\<close>, so the comparisons of the source give the
  same answer on a double as the comparisons below on the real it denotes.
\<close>

datatype jval = JList "ustring list" | JFloat real | JInt nat | JStr ustring

type_synonym dict = "(string \<times> jval) list"

definition dict_get :: "dict \<Rightarrow> string \<Rightarrow> jval option" where
  "dict_get d k = map_of d k"

definition dict_keys :: "dict \<Rightarrow> string list" where
  "dict_keys d = map fst d"

section \<open>The Python runtime and the libraries\<close>

text \<open>
  The Unicode tables behind \<open>str.isspace\<close>, \<open>str.isalpha\<close>, \<open>str.isupper\<close> and
  \<open>str.lower\<close>, the NLTK tokenizer and stop-word list, the TextBlob polarity and the
  network are outside the repository. They are fields of an environment; \<open>None\<close> stands
  for a call that raises.
\<close>

record page =
  title_string :: "ustring option option"
  paragraph_texts :: "ustring list"
  meta_name_description :: "ustring option option"
  meta_og_description :: "ustring option option"

record organic =
  o_title :: "ustring option"
  o_link :: "ustring option"
  o_snippet :: "ustring option"

record container =
  c_h3 :: "ustring option"
  c_a :: "ustring option option"
  c_snippet :: "ustring option"

record search_result =
  sr_title :: "ustring option"
  sr_url :: "ustring option"
  sr_snippet :: "ustring option"

record env =
  isspace :: "nat \<Rightarrow> bool"
  isalpha :: "ustring \<Rightarrow> bool"
  isupper :: "ustring \<Rightarrow> bool"
  lower :: "ustring \<Rightarrow> ustring"
  word_tokenize :: "ustring \<Rightarrow> ustring list option"
  stopwords_english :: "ustring list option"
  textblob_polarity :: "ustring \<Rightarrow> real option"
  round4 :: "real \<Rightarrow> real"
  http_get_page :: "ustring \<Rightarrow> page option"
  urlparse_netloc :: "ustring \<Rightarrow> ustring option"
  serpapi_key :: ustring
  serpapi_organic :: "ustring \<Rightarrow> nat \<Rightarrow> organic list option"
  scrape_select :: "ustring \<Rightarrow> nat \<Rightarrow> (container list \<times> container list \<times> container list) option"

section \<open>String operations\<close>

text \<open>\<open>s.strip()\<close>: whitespace removed at both ends.\<close>

definition strip :: "env \<Rightarrow> ustring \<Rightarrow> ustring" where
  "strip e s = rev (dropWhile (isspace e) (rev (dropWhile (isspace e) s)))"

text \<open>\<open>s.split()\<close>: the maximal runs of non-whitespace, in order.\<close>

fun split_acc :: "(nat \<Rightarrow> bool) \<Rightarrow> ustring \<Rightarrow> ustring \<Rightarrow> ustring list" where
  "split_acc sp w [] = (if w = [] then [] else [rev w])"
| "split_acc sp w (c # cs) =
     (if sp c then (if w = [] then split_acc sp [] cs else rev w # split_acc sp [] cs)
      else split_acc sp (c # w) cs)"

definition split :: "env \<Rightarrow> ustring \<Rightarrow> ustring list" where
  "split e s = split_acc (isspace e) [] s"

text \<open>\<open>w in t\<close> on strings: \<open>w\<close> occurs in \<open>t\<close> as a contiguous run.\<close>

fun starts_with :: "ustring \<Rightarrow> ustring \<Rightarrow> bool" where
  "starts_with [] t = True"
| "starts_with (a # w) [] = False"
| "starts_with (a # w) (b # t) = (a = b \<and> starts_with w t)"

fun contains :: "ustring \<Rightarrow> ustring \<Rightarrow> bool" where
  "contains w [] = (w = [])"
| "contains w (c # cs) = (starts_with w (c # cs) \<or> contains w cs)"

text \<open>\<open>" ".join(xs)\<close>.\<close>

fun join_space :: "ustring list \<Rightarrow> ustring" where
  "join_space [] = []"
| "join_space [x] = x"
| "join_space (x # y # ys) = x @ [32] @ join_space (y # ys)"

text \<open>\<open>s.replace("\n", " ")\<close>: every line feed (code point 10) becomes a space (32).\<close>

definition replace_newlines :: "ustring \<Rightarrow> ustring" where
  "replace_newlines s = map (\<lambda>c. if c = 10 then 32 else c) s"

section \<open>NLP analysis: \<open>analyze_text\<close>\<close>

definition sensational_words :: "ustring list" where
  "sensational_words = map u
     [''click'', ''shocking'', ''unbelievable'', ''hate'', ''secret'', ''miracle'', ''cure'',
      ''conspiracy'', ''pharma'', ''believe'', ''weird'', ''trick'', ''scientists'', ''baffled'',
      ''hidden'', ''truth'', ''wake'', ''sheeple'', ''fake'', ''hoax'', ''breaking'', ''news'',
      ''urgent'', ''alert'', ''warning'', ''scandal'', ''exposed'', ''leaked'', ''bombshell'',
      ''revolutionary'', ''guaranteed'', ''limited'', ''act'', ''free'', ''money'', ''cancer'',
      ''theory'', ''deep'', ''state'', ''alternative'', ''facts'', ''zombie'', ''apocalypse'']"

text \<open>
  Lines 97-103: the NLTK tokens, lowercased, alphabetic, without stop words; when the
  tokenizer or the stop-word list raises, the whitespace split of the text instead.
\<close>

definition tokens_of :: "env \<Rightarrow> ustring \<Rightarrow> ustring list" where
  "tokens_of e text =
     (case (word_tokenize e text, stopwords_english e) of
        (Some ws, Some stop) \<Rightarrow>
          filter (\<lambda>t. t \<notin> set stop) (map (lower e) (filter (isalpha e) ws))
      | _ \<Rightarrow> map (lower e) (filter (isalpha e) (split e text)))"

text \<open>Lines 110-113: the polarity, \<open>0.0\<close> when TextBlob raises.\<close>

definition polarity_of :: "env \<Rightarrow> ustring \<Rightarrow> real" where
  "polarity_of e text = (case textblob_polarity e text of Some p \<Rightarrow> p | None \<Rightarrow> 0)"

text \<open>Lines 124-127: the three indicator counts and their sum.\<close>

definition indicator_count :: "ustring list \<Rightarrow> nat" where
  "indicator_count tokens =
     length (filter (\<lambda>t. list_ex (\<lambda>w. contains w t) sensational_words) tokens)"

definition punct_indicators :: "ustring \<Rightarrow> nat" where
  "punct_indicators text = (count_list text 33 + count_list text 63) div 2"

definition caps_indicators :: "env \<Rightarrow> ustring \<Rightarrow> nat" where
  "caps_indicators e text =
     (if length (filter (\<lambda>t. isupper e t \<and> length t > 3) (split e text)) > 1 then 1 else 0)"

definition total_indicators :: "env \<Rightarrow> ustring \<Rightarrow> nat" where
  "total_indicators e text =
     indicator_count (tokens_of e text) + punct_indicators text + caps_indicators e text"

text \<open>Lines 129-134: the label from the indicator total and the polarity.\<close>

definition verdict_label :: "nat \<Rightarrow> real \<Rightarrow> ustring" where
  "verdict_label tot polarity =
     (if tot \<ge> 3 \<or> polarity < - 0.25 \<or> polarity > 0.5 then u ''fake''
      else if tot \<ge> 1 \<or> \<bar>polarity\<bar> > 0.15 then u ''suspicious''
      else u ''real'')"

text \<open>Line 136: the preview; the truncation marker is the single code point U+2026.\<close>

definition preview_of :: "env \<Rightarrow> ustring \<Rightarrow> ustring" where
  "preview_of e text =
     replace_newlines (take 300 (strip e text))
       @ (if length (strip e text) > 300 then [8230] else [])"

text \<open>
  \<open>analyze_text\<close>. The discarded \<open>pos_tag\<close> pass of lines 105-108 has no effect on the
  result. \<open>round(polarity, 4)\<close> is the environment's \<open>round4\<close>.
\<close>

definition analyze_text :: "env \<Rightarrow> ustring \<Rightarrow> dict" where
  "analyze_text e text =
     (if text = [] \<or> length (strip e text) < 10 then
        [(''tokens'', JList []), (''sentiment'', JFloat 0),
         (''label'', JStr (u ''uncertain'')), (''preview'', JStr [])]
      else
        [(''tokens'', JList (take 20 (tokens_of e text))),
         (''sentiment'', JFloat (round4 e (polarity_of e text))),
         (''label'', JStr (verdict_label (total_indicators e text) (polarity_of e text))),
         (''preview'', JStr (preview_of e text)),
         (''indicators'', JInt (total_indicators e text))])"

section \<open>Content extraction: \<open>extract_text_from_url\<close>\<close>

text \<open>
  A fetched and parsed page, as far as the extractor looks at it. \<open>title_string\<close> is
  \<open>None\<close> when the page has no title element, \<open>Some None\<close> when \<open>soup.title.string\<close> is
  \<open>None\<close> (then \<open>.strip()\<close> raises), and \<open>Some (Some s)\<close> otherwise. \<open>paragraph_texts\<close> holds
  \<open>p.get_text(" ", strip=True)\<close> of every paragraph element in document order. A meta
  field is \<open>None\<close> when \<open>soup.find\<close> finds no such element, \<open>Some None\<close> when the element has
  no \<open>content\<close> attribute, and \<open>Some (Some c)\<close> otherwise. \<open>http_get_page\<close> is \<open>None\<close> when the
  request, \<open>raise_for_status\<close> or the parser raises.
\<close>

definition find_meta :: "page \<Rightarrow> ustring option option" where
  "find_meta pg =
     (case meta_name_description pg of Some m \<Rightarrow> Some m | None \<Rightarrow> meta_og_description pg)"

text \<open>Lines 82-87, once the title is known.\<close>

definition page_content :: "page \<Rightarrow> ustring \<Rightarrow> nat \<Rightarrow> ustring" where
  "page_content pg title max_paragraphs =
     (let paragraphs = take max_paragraphs (paragraph_texts pg);
          content = (if join_space paragraphs \<noteq> [] then join_space paragraphs else title)
      in if content = [] then
           (case find_meta pg of
              Some m \<Rightarrow> (case m of Some c \<Rightarrow> c | None \<Rightarrow> [])
            | None \<Rightarrow> title)
         else content)"

definition extract_text_from_url :: "env \<Rightarrow> ustring \<Rightarrow> nat \<Rightarrow> ustring \<times> ustring" where
  "extract_text_from_url e url max_paragraphs =
     (case http_get_page e url of
        None \<Rightarrow> (url, url)
      | Some pg \<Rightarrow>
          (case title_string pg of
             None \<Rightarrow> (url, page_content pg url max_paragraphs)
           | Some None \<Rightarrow> (url, url)
           | Some (Some s) \<Rightarrow> (strip e s, page_content pg (strip e s) max_paragraphs)))"

section \<open>Search: \<open>google_search\<close>\<close>

text \<open>
  \<open>serpapi_organic\<close> is the list under \<open>organic_results\<close> of the API's answer (empty when the
  key is missing), \<open>None\<close> when the call raises; an absent field of an item is \<open>None\<close>, as
  \<open>dict.get\<close> returns it. A field of a search result that is \<open>None\<close> is Python's \<open>None\<close>.
\<close>

definition google_search_serpapi :: "env \<Rightarrow> ustring \<Rightarrow> nat \<Rightarrow> search_result list" where
  "google_search_serpapi e query num =
     (if serpapi_key e = [] then []
      else case serpapi_organic e query num of
             None \<Rightarrow> []
           | Some items \<Rightarrow>
               map (\<lambda>it. \<lparr>sr_title = o_title it, sr_url = o_link it, sr_snippet = o_snippet it\<rparr>)
                 (take num items))"

text \<open>A string option is truthy when it is a non-empty string.\<close>

definition truthy :: "ustring option \<Rightarrow> bool" where
  "truthy x = (case x of Some (c # cs) \<Rightarrow> True | _ \<Rightarrow> False)"

text \<open>
  \<open>scrape_select\<close> gives the elements matched by the three selectors of line 160, \<open>None\<close>
  when the request or the parser raises. Of a result block, \<open>c_h3\<close> is the stripped text of
  its first \<open>h3\<close>, \<open>c_a\<close> its first anchor (\<open>Some None\<close> for an anchor without \<open>href\<close>, where
  \<open>link_el['href']\<close> raises) and \<open>c_snippet\<close> the text of its snippet element. The loop of
  lines 162-170 returns \<open>None\<close> when it raises.
\<close>

fun scrape_loop :: "container list \<Rightarrow> search_result list \<Rightarrow> search_result list option" where
  "scrape_loop [] results = Some results"
| "scrape_loop (g # gs) results =
     (case c_a g of
        Some None \<Rightarrow> None
      | a \<Rightarrow>
          (let title = c_h3 g;
               link = (case a of Some (Some h) \<Rightarrow> Some h | _ \<Rightarrow> None);
               snippet = (case c_snippet g of Some s \<Rightarrow> s | None \<Rightarrow> [])
           in if truthy title \<or> truthy link then
                scrape_loop gs
                  (results @ [\<lparr>sr_title = (if truthy title then title else link),
                               sr_url = link, sr_snippet = Some snippet\<rparr>])
              else scrape_loop gs results))"

definition google_search_scrape :: "env \<Rightarrow> ustring \<Rightarrow> nat \<Rightarrow> search_result list" where
  "google_search_scrape e query num =
     (case scrape_select e query num of
        None \<Rightarrow> []
      | Some (s1, s2, s3) \<Rightarrow>
          (let containers = (if s1 \<noteq> [] then s1 else if s2 \<noteq> [] then s2 else s3)
           in case scrape_loop (take num containers) [] of
                None \<Rightarrow> []
              | Some results \<Rightarrow> results))"

definition google_search :: "env \<Rightarrow> ustring \<Rightarrow> nat \<Rightarrow> search_result list" where
  "google_search e query num =
     (if google_search_serpapi e query num \<noteq> [] then google_search_serpapi e query num
      else google_search_scrape e query num)"

section \<open>The helper \<open>prepare_query_from_input\<close>\<close>

text \<open>\<open>a or b or c\<close> on strings.\<close>

definition or3 :: "ustring \<Rightarrow> ustring \<Rightarrow> ustring \<Rightarrow> ustring" where
  "or3 a b c = (if a \<noteq> [] then a else if b \<noteq> [] then b else c)"

text \<open>The result is \<open>None\<close> when \<open>urlparse\<close> raises; the caller does not catch it here.\<close>

definition prepare_query_from_input :: "env \<Rightarrow> ustring \<Rightarrow> (ustring \<times> ustring) option" where
  "prepare_query_from_input e raw_input =
     (let raw = strip e raw_input in
      if raw = [] then Some ([], [])
      else if starts_with (u ''http://'') raw \<or> starts_with (u ''https://'') raw then
        (case extract_text_from_url e raw 15 of
           (title, content) \<Rightarrow>
             (case urlparse_netloc e raw of
                None \<Rightarrow> None
              | Some domain \<Rightarrow> Some (or3 title domain raw, or3 content title raw)))
      else Some (raw, raw))"

section \<open>The route \<open>verify\<close>\<close>

text \<open>Lines 209-213, as a function of the result count and the label.\<close>

definition adjust_label :: "nat \<Rightarrow> ustring \<Rightarrow> ustring" where
  "adjust_label n l =
     (if n < 3 then
        (if l = u ''real'' then u ''suspicious''
         else if l = u ''uncertain'' then u ''fake''
         else l)
      else l)"

text \<open>
  The request body: \<open>None\<close> when \<open>get_json\<close> or line 200 raises, otherwise the two fields
  the route reads, \<open>None\<close> for an absent field.
\<close>

record request =
  url_field :: "ustring option"
  text_field :: "ustring option"

record report =
  r_text :: ustring
  r_label :: ustring

datatype response = Resp200 dict "search_result list" | Resp400 | Resp500

datatype log_line = DB_save_failed | Verify_failed

definition raw_of :: "env \<Rightarrow> request \<Rightarrow> ustring" where
  "raw_of e data =
     strip e (case url_field data of
                Some (c # cs) \<Rightarrow> c # cs
              | _ \<Rightarrow> (case text_field data of Some (c # cs) \<Rightarrow> c # cs | _ \<Rightarrow> []))"

text \<open>
  \<open>verify\<close> on a table of reports. \<open>commit_ok\<close> says whether the insert of lines 217-219
  succeeds. The result is the response, the table afterwards and the lines the route
  itself logs; the identifier and creation time of a row are assigned by the database and
  are not part of the model, nor are the warnings logged by the extractor and the search
  functions. \<open>analyze_text\<close> always stores a string under \<open>label\<close>, so the last branch, where
  reading the label raises, is never taken.
\<close>

definition verify :: "env \<Rightarrow> request option \<Rightarrow> bool \<Rightarrow> report list
    \<Rightarrow> response \<times> report list \<times> log_line list" where
  "verify e req commit_ok db =
     (case req of
        None \<Rightarrow> (Resp500, db, [Verify_failed])
      | Some data \<Rightarrow>
          (if raw_of e data = [] then (Resp400, db, [])
           else case prepare_query_from_input e (raw_of e data) of
             None \<Rightarrow> (Resp500, db, [Verify_failed])
           | Some (search_query, analysis_text) \<Rightarrow>
               (let analysis = analyze_text e analysis_text;
                    search_results =
                      (if search_query \<noteq> [] then google_search e search_query 6 else [])
                in case dict_get analysis ''label'' of
                     Some (JStr l) \<Rightarrow>
                       (let l' = adjust_label (length search_results) l;
                            analysis' = AList.update ''label'' (JStr l') analysis;
                            rec = \<lparr>r_text = take 2000 analysis_text, r_label = l'\<rparr>
                        in if commit_ok
                           then (Resp200 analysis' search_results, db @ [rec], [])
                           else (Resp200 analysis' search_results, db, [DB_save_failed]))
                   | _ \<Rightarrow> (Resp500, db, [Verify_failed]))))"

section \<open>An ASCII environment\<close>

text \<open>
  A concrete environment for evaluation: the character classes restricted to ASCII, NLTK
  data and the network unavailable, a neutral polarity.
\<close>

definition ascii_isspace :: "nat \<Rightarrow> bool" where
  "ascii_isspace c = ((9 \<le> c \<and> c \<le> 13) \<or> (28 \<le> c \<and> c \<le> 32))"

definition ascii_upper :: "nat \<Rightarrow> bool" where
  "ascii_upper c = (65 \<le> c \<and> c \<le> 90)"

definition ascii_lower :: "nat \<Rightarrow> bool" where
  "ascii_lower c = (97 \<le> c \<and> c \<le> 122)"

definition ascii_env :: env where
  "ascii_env =
     \<lparr>isspace = ascii_isspace,
      isalpha = (\<lambda>s. s \<noteq> [] \<and> list_all (\<lambda>c. ascii_upper c \<or> ascii_lower c) s),
      isupper = (\<lambda>s. list_ex ascii_upper s \<and> list_all (\<lambda>c. \<not> ascii_lower c) s),
      lower = map (\<lambda>c. if ascii_upper c then c + 32 else c),
      word_tokenize = (\<lambda>t. None),
      stopwords_english = None,
      textblob_polarity = (\<lambda>t. Some 0),
      round4 = (\<lambda>x. of_int (round (x * 10000)) / 10000),
      http_get_page = (\<lambda>url. None),
      urlparse_netloc = (\<lambda>url. Some []),
      serpapi_key = u ''k'',
      serpapi_organic = (\<lambda>q n. Some []),
      scrape_select = (\<lambda>q n. None)\<rparr>"

section \<open>Sample inputs\<close>

definition neutral_text :: ustring where
  "neutral_text = u ''Rates rose today.''"

definition neutral_request :: request where
  "neutral_request = \<lparr>url_field = None, text_field = Some neutral_text\<rparr>"

definition short_text :: ustring where
  "short_text = u ''  short ''"

text \<open>A page without paragraphs, with a title and a meta description.\<close>

definition titled_page :: page where
  "titled_page =
     \<lparr>title_string = Some (Some (u ''Title'')), paragraph_texts = [],
      meta_name_description = Some (Some (u ''Summary'')), meta_og_description = None\<rparr>"

definition titled_env :: env where
  "titled_env = ascii_env\<lparr>http_get_page := (\<lambda>url. Some titled_page)\<rparr>"

text \<open>An answer of the search API whose only item has no snippet.\<close>

definition organic_without_snippet :: organic where
  "organic_without_snippet =
     \<lparr>o_title = Some (u ''T''), o_link = Some (u ''http://a/''), o_snippet = None\<rparr>"

definition snippetless_env :: env where
  "snippetless_env = ascii_env\<lparr>serpapi_organic := (\<lambda>q n. Some [organic_without_snippet])\<rparr>"

section \<open>Basic facts\<close>

lemma u_eq_iff: "(u a = u b) = (a = b)"
  unfolding u_def by (simp add: inj_map_eq_map inj_on_def)

lemma strip_Nil: "strip e [] = []"
  by (simp add: strip_def)

lemma length_replace_newlines: "length (replace_newlines s) = length s"
  by (simp add: replace_newlines_def)

lemma verdict_label_cases:
  "verdict_label t p = u ''fake'' \<or> verdict_label t p = u ''suspicious''
   \<or> verdict_label t p = u ''real''"
  by (simp add: verdict_label_def)

lemma analyze_text_label:
  "dict_get (analyze_text e s) ''label'' =
     Some (JStr (if s = [] \<or> length (strip e s) < 10 then u ''uncertain''
                 else verdict_label (total_indicators e s) (polarity_of e s)))"
  by (simp add: analyze_text_def dict_get_def)

lemma dict_keys_analyze:
  "dict_keys (analyze_text e s) =
     (if s = [] \<or> length (strip e s) < 10
      then [''tokens'', ''sentiment'', ''label'', ''preview'']
      else [''tokens'', ''sentiment'', ''label'', ''preview'', ''indicators''])"
  by (simp add: analyze_text_def dict_keys_def)

lemma dict_keys_update_label:
  "dict_keys (AList.update ''label'' v (analyze_text e s)) = dict_keys (analyze_text e s)"
  by (simp add: analyze_text_def dict_keys_def)

text \<open>What \<open>verify\<close> does once the input is non-empty and the query is prepared.\<close>

lemma verify_reaches_persistence:
  assumes "raw_of e data \<noteq> []"
    and "prepare_query_from_input e (raw_of e data) = Some (q, t)"
    and "dict_get (analyze_text e t) ''label'' = Some (JStr l0)"
  shows "verify e (Some data) ok db =
     (let rs = (if q \<noteq> [] then google_search e q 6 else []);
          l = adjust_label (length rs) l0;
          a = AList.update ''label'' (JStr l) (analyze_text e t)
      in if ok then (Resp200 a rs, db @ [\<lparr>r_text = take 2000 t, r_label = l\<rparr>], [])
         else (Resp200 a rs, db, [DB_save_failed]))"
  using assms by (simp add: verify_def Let_def)

text \<open>Evaluation of the sample inputs.\<close>

lemma neutral_text_code:
  "neutral_text = [82, 97, 116, 101, 115, 32, 114, 111, 115, 101, 32, 116, 111, 100, 97, 121, 46]"
  by (simp add: neutral_text_def u_def)

lemma strip_neutral: "strip ascii_env neutral_text = neutral_text"
  by (simp add: neutral_text_code strip_def ascii_env_def ascii_isspace_def)

lemma raw_neutral: "raw_of ascii_env neutral_request = neutral_text"
  by (simp add: raw_of_def neutral_request_def neutral_text_code strip_def ascii_env_def
      ascii_isspace_def)

lemma prepare_neutral:
  "prepare_query_from_input ascii_env neutral_text = Some (neutral_text, neutral_text)"
  by (simp add: prepare_query_from_input_def Let_def u_def neutral_text_code strip_def
      ascii_env_def ascii_isspace_def)

lemma neutral_not_degenerate:
  "\<not> (neutral_text = [] \<or> length (strip ascii_env neutral_text) < 10)"
  by (simp add: strip_neutral) (simp add: neutral_text_code)

lemma strip_short: "strip ascii_env short_text = u ''short''"
  by (simp add: short_text_def strip_def ascii_env_def u_def ascii_isspace_def)

section \<open>The verdict classifier\<close>

text \<open>
  Claim C1, as amended. The label computed by \<open>analyze_text\<close> for a text that is not
  degenerate is \<open>verdict_label\<close> of the indicator total and the polarity, and
  \<open>verdict_label\<close> tests in this order: \<open>fake\<close> when the total is at least 3 or the
  polarity is below -0.25 or above 0.5; otherwise \<open>suspicious\<close> when the total is at least
  1 or the absolute polarity is above 0.15; otherwise \<open>real\<close>. A total of exactly 3 gives
  \<open>fake\<close>. All polarity comparisons are strict: with fewer than 3 indicators a polarity of
  exactly 0.5, 0.25 or -0.25 gives \<open>suspicious\<close>, not \<open>fake\<close>, and with no indicator an
  absolute polarity of exactly 0.15 gives \<open>real\<close>.
\<close>

theorem verdict_label_order:
  "verdict_label t p =
     (if t \<ge> 3 \<or> p < - 0.25 \<or> p > 0.5 then u ''fake''
      else if t \<ge> 1 \<or> \<bar>p\<bar> > 0.15 then u ''suspicious'' else u ''real'')
   \<and> verdict_label 3 p = u ''fake''
   \<and> (t < 3 \<longrightarrow> verdict_label t 0.5 = u ''suspicious'')
   \<and> (t < 3 \<longrightarrow> verdict_label t 0.25 = u ''suspicious'')
   \<and> (t < 3 \<longrightarrow> verdict_label t (- 0.25) = u ''suspicious'')
   \<and> verdict_label 0 0.15 = u ''real''
   \<and> verdict_label 0 (- 0.15) = u ''real''
   \<and> (\<not> (s = [] \<or> length (strip e s) < 10) \<longrightarrow>
        dict_get (analyze_text e s) ''label''
          = Some (JStr (verdict_label (total_indicators e s) (polarity_of e s))))"
  by (simp add: verdict_label_def analyze_text_label)

theorem verdict_label_order_witness:
  "verdict_label 2 0.5 = u ''suspicious''
   \<and> verdict_label 3 0.5 = u ''fake''
   \<and> \<not> (neutral_text = [] \<or> length (strip ascii_env neutral_text) < 10)
   \<and> dict_get (analyze_text ascii_env neutral_text) ''label''
       = Some (JStr (verdict_label (total_indicators ascii_env neutral_text)
                       (polarity_of ascii_env neutral_text)))"
  using verdict_label_order[where t = 2 and p = "0.5" and s = neutral_text and e = ascii_env]
        neutral_not_degenerate
  by simp

text \<open>
  The claim as stated fails: with no indicator, a polarity of exactly 0.5 is classified
  \<open>suspicious\<close>.
\<close>

theorem verdict_half_counterexample:
  "verdict_label 0 0.5 = u ''suspicious'' \<and> verdict_label 0 0.5 \<noteq> u ''fake''"
  by (simp add: verdict_label_def u_eq_iff)

text \<open>
  Claim C4, as amended. For every polarity of absolute value at most 0.15, an indicator
  total of exactly 2 is classified \<open>suspicious\<close>.
\<close>

theorem verdict_two_indicators:
  "\<bar>p\<bar> \<le> 0.15 \<Longrightarrow> verdict_label 2 p = u ''suspicious''"
  by (auto simp add: verdict_label_def)

theorem verdict_two_indicators_witness:
  "\<bar>0.1 :: real\<bar> \<le> 0.15 \<and> verdict_label 2 0.1 = u ''suspicious''"
  using verdict_two_indicators[of "0.1"] by simp

text \<open>The claim as stated fails at polarity 0: the label is not \<open>real\<close>.\<close>

theorem verdict_two_counterexample:
  "\<bar>0 :: real\<bar> \<le> 0.15 \<and> verdict_label 2 0 \<noteq> u ''real''"
  by (simp add: verdict_label_def u_eq_iff)

section \<open>The corroboration adjustment\<close>

text \<open>
  Claim C2. With fewer than 3 search results \<open>real\<close> becomes \<open>suspicious\<close> and \<open>uncertain\<close>
  becomes \<open>fake\<close>; \<open>suspicious\<close> and \<open>fake\<close> are unchanged for every count; with 3 or more
  results no label changes. The route applies the adjustment once, to the label that
  \<open>analyze_text\<close> computed, with the number of search results it returns.
\<close>

theorem corroboration_adjustment:
  "(n < 3 \<longrightarrow> adjust_label n (u ''real'') = u ''suspicious''
             \<and> adjust_label n (u ''uncertain'') = u ''fake'')
   \<and> adjust_label n (u ''suspicious'') = u ''suspicious''
   \<and> adjust_label n (u ''fake'') = u ''fake''
   \<and> (3 \<le> n \<longrightarrow> adjust_label n l = l)
   \<and> (raw_of e data \<noteq> [] \<and> prepare_query_from_input e (raw_of e data) = Some (q, t) \<longrightarrow>
        (\<exists>l0 rs. dict_get (analyze_text e t) ''label'' = Some (JStr l0)
           \<and> rs = (if q \<noteq> [] then google_search e q 6 else [])
           \<and> fst (verify e (Some data) ok db)
               = Resp200 (AList.update ''label'' (JStr (adjust_label (length rs) l0))
                            (analyze_text e t)) rs))"
proof -
  have table: "(n < 3 \<longrightarrow> adjust_label n (u ''real'') = u ''suspicious''
             \<and> adjust_label n (u ''uncertain'') = u ''fake'')
   \<and> adjust_label n (u ''suspicious'') = u ''suspicious''
   \<and> adjust_label n (u ''fake'') = u ''fake''
   \<and> (3 \<le> n \<longrightarrow> adjust_label n l = l)"
    by (simp add: adjust_label_def u_eq_iff)
  have route: "\<exists>l0 rs. dict_get (analyze_text e t) ''label'' = Some (JStr l0)
           \<and> rs = (if q \<noteq> [] then google_search e q 6 else [])
           \<and> fst (verify e (Some data) ok db)
               = Resp200 (AList.update ''label'' (JStr (adjust_label (length rs) l0))
                            (analyze_text e t)) rs"
    if h: "raw_of e data \<noteq> []" "prepare_query_from_input e (raw_of e data) = Some (q, t)"
    using verify_reaches_persistence[OF h analyze_text_label, of ok db]
          analyze_text_label[of e t]
    by (simp add: Let_def)
  from table route show ?thesis by blast
qed

theorem corroboration_adjustment_witness:
  "adjust_label 0 (u ''real'') = u ''suspicious''
   \<and> adjust_label 0 (u ''uncertain'') = u ''fake''
   \<and> adjust_label 5 (u ''real'') = u ''real''
   \<and> raw_of ascii_env neutral_request \<noteq> []
   \<and> prepare_query_from_input ascii_env (raw_of ascii_env neutral_request)
       = Some (neutral_text, neutral_text)
   \<and> (\<exists>l0 rs. dict_get (analyze_text ascii_env neutral_text) ''label'' = Some (JStr l0)
         \<and> rs = (if neutral_text \<noteq> [] then google_search ascii_env neutral_text 6 else [])
         \<and> fst (verify ascii_env (Some neutral_request) True [])
             = Resp200 (AList.update ''label'' (JStr (adjust_label (length rs) l0))
                          (analyze_text ascii_env neutral_text)) rs)"
proof -
  have r: "raw_of ascii_env neutral_request \<noteq> []"
    by (simp add: raw_neutral) (simp add: neutral_text_code)
  have p: "prepare_query_from_input ascii_env (raw_of ascii_env neutral_request)
       = Some (neutral_text, neutral_text)"
    by (simp add: raw_neutral prepare_neutral)
  show ?thesis
    using r p
      corroboration_adjustment[where n = 0 and l = "u ''real''" and e = ascii_env
        and data = neutral_request and q = neutral_text and t = neutral_text
        and ok = True and db = "[]"]
      corroboration_adjustment[where n = 5 and l = "u ''real''" and e = ascii_env
        and data = neutral_request and q = neutral_text and t = neutral_text
        and ok = True and db = "[]"]
    by simp
qed

text \<open>
  Claim C7. The adjustment is idempotent: for every label and every count, applying it
  twice with the same count gives what applying it once gives; \<open>suspicious\<close> and \<open>fake\<close>
  are fixed points.
\<close>

theorem adjust_label_idempotent:
  "adjust_label n (adjust_label n l) = adjust_label n l
   \<and> adjust_label n (u ''suspicious'') = u ''suspicious''
   \<and> adjust_label n (u ''fake'') = u ''fake''"
  by (simp add: adjust_label_def u_eq_iff)

theorem adjust_label_idempotent_witness:
  "adjust_label 0 (adjust_label 0 (u ''uncertain'')) = adjust_label 0 (u ''uncertain'')
   \<and> adjust_label 0 (u ''uncertain'') = u ''fake''"
  using adjust_label_idempotent[of 0 "u ''uncertain''"]
  by (simp add: adjust_label_def u_eq_iff)

section \<open>The analyzer\<close>

text \<open>
  Claim C3. For every text that is empty or whose stripped length is below 10, the
  analyzer returns the degenerate result: no tokens, sentiment 0.0, label \<open>uncertain\<close>
  and an empty preview; nothing of the environment but the whitespace table is consulted.
\<close>

theorem degenerate_result:
  "s = [] \<or> length (strip e s) < 10 \<Longrightarrow>
   analyze_text e s =
     [(''tokens'', JList []), (''sentiment'', JFloat 0),
      (''label'', JStr (u ''uncertain'')), (''preview'', JStr [])]"
  by (auto simp add: analyze_text_def)

theorem degenerate_result_witness:
  "length (strip ascii_env short_text) < 10 \<and>
   analyze_text ascii_env short_text =
     [(''tokens'', JList []), (''sentiment'', JFloat 0),
      (''label'', JStr (u ''uncertain'')), (''preview'', JStr [])]"
proof -
  have h: "length (strip ascii_env short_text) < 10"
    by (simp add: strip_short) (simp add: u_def)
  show ?thesis
    using h degenerate_result[of short_text ascii_env] by simp
qed

text \<open>
  Claim C6. Every result for a text that is not degenerate has a label among \<open>real\<close>,
  \<open>suspicious\<close>, \<open>fake\<close> and \<open>uncertain\<close>, at most 20 tokens, and a preview of at most 301
  code points: the first 300 of the stripped text with line feeds replaced, followed by
  the one-character truncation marker exactly when the stripped text has more than 300.
\<close>

theorem analysis_result_bounds:
  assumes "\<not> (s = [] \<or> length (strip e s) < 10)"
  shows "\<exists>toks l p.
      dict_get (analyze_text e s) ''tokens'' = Some (JList toks) \<and> length toks \<le> 20
    \<and> dict_get (analyze_text e s) ''label'' = Some (JStr l)
    \<and> l \<in> {u ''real'', u ''suspicious'', u ''fake'', u ''uncertain''}
    \<and> dict_get (analyze_text e s) ''preview'' = Some (JStr p) \<and> length p \<le> 301
    \<and> p = replace_newlines (take 300 (strip e s))
            @ (if length (strip e s) > 300 then [8230] else [])
    \<and> length (replace_newlines (take 300 (strip e s))) \<le> 300"
proof -
  have toks: "dict_get (analyze_text e s) ''tokens'' = Some (JList (take 20 (tokens_of e s)))"
    using assms by (simp add: analyze_text_def dict_get_def)
  have lab: "dict_get (analyze_text e s) ''label''
      = Some (JStr (verdict_label (total_indicators e s) (polarity_of e s)))"
    using assms by (simp add: analyze_text_label)
  have prev: "dict_get (analyze_text e s) ''preview'' = Some (JStr (preview_of e s))"
    using assms by (simp add: analyze_text_def dict_get_def)
  have plen: "length (preview_of e s) \<le> 301"
    by (simp add: preview_of_def length_replace_newlines)
  have lin: "verdict_label (total_indicators e s) (polarity_of e s)
      \<in> {u ''real'', u ''suspicious'', u ''fake'', u ''uncertain''}"
    using verdict_label_cases[of "total_indicators e s" "polarity_of e s"] by auto
  show ?thesis
    using toks lab prev plen lin
    by (simp add: preview_of_def length_replace_newlines)
qed

theorem analysis_result_bounds_witness:
  "\<not> (neutral_text = [] \<or> length (strip ascii_env neutral_text) < 10)
   \<and> (\<exists>toks l p.
      dict_get (analyze_text ascii_env neutral_text) ''tokens'' = Some (JList toks)
    \<and> length toks \<le> 20
    \<and> dict_get (analyze_text ascii_env neutral_text) ''label'' = Some (JStr l)
    \<and> l \<in> {u ''real'', u ''suspicious'', u ''fake'', u ''uncertain''}
    \<and> dict_get (analyze_text ascii_env neutral_text) ''preview'' = Some (JStr p)
    \<and> length p \<le> 301
    \<and> p = neutral_text)"
proof -
  have len: "length neutral_text = 17"
    by (simp add: neutral_text_code)
  have same: "replace_newlines neutral_text = neutral_text"
    by (simp add: neutral_text_code replace_newlines_def)
  show ?thesis
    using neutral_not_degenerate analysis_result_bounds[OF neutral_not_degenerate]
    by (simp add: strip_neutral len same)
qed

text \<open>
  Claim C10. The degenerate result has exactly the keys \<open>tokens\<close>, \<open>sentiment\<close>, \<open>label\<close>
  and \<open>preview\<close>; every other result has these and \<open>indicators\<close>. Hence the analysis in
  a response of \<open>verify\<close> lacks \<open>indicators\<close> exactly when the stripped analysed text is
  shorter than 10.
\<close>

theorem indicators_key_presence:
  "(s = [] \<or> length (strip e s) < 10 \<longrightarrow>
      dict_keys (analyze_text e s) = [''tokens'', ''sentiment'', ''label'', ''preview''])
   \<and> (\<not> (s = [] \<or> length (strip e s) < 10) \<longrightarrow>
      dict_keys (analyze_text e s)
        = [''tokens'', ''sentiment'', ''label'', ''preview'', ''indicators''])
   \<and> (prepare_query_from_input e (raw_of e data) = Some (q, t)
        \<and> fst (verify e (Some data) ok db) = Resp200 a rs \<longrightarrow>
        (''indicators'' \<notin> set (dict_keys a) \<longleftrightarrow> length (strip e t) < 10))"
proof -
  have route: "''indicators'' \<notin> set (dict_keys a) \<longleftrightarrow> length (strip e t) < 10"
    if p: "prepare_query_from_input e (raw_of e data) = Some (q, t)"
      and v: "fst (verify e (Some data) ok db) = Resp200 a rs"
  proof -
    have r: "raw_of e data \<noteq> []"
      using v by (auto simp add: verify_def)
    obtain l0 where l0: "dict_get (analyze_text e t) ''label'' = Some (JStr l0)"
      using analyze_text_label by blast
    have "\<exists>w. a = AList.update ''label'' w (analyze_text e t)"
      using v verify_reaches_persistence[OF r p l0, of ok db]
      by (cases ok) (auto simp add: Let_def)
    then have "dict_keys a = dict_keys (analyze_text e t)"
      by (auto simp add: dict_keys_update_label)
    then show ?thesis
      by (auto simp add: dict_keys_analyze strip_Nil split: if_splits)
  qed
  show ?thesis
    using route by (simp add: dict_keys_analyze)
qed

theorem indicators_key_presence_witness:
  "dict_keys (analyze_text ascii_env short_text)
     = [''tokens'', ''sentiment'', ''label'', ''preview'']
   \<and> dict_keys (analyze_text ascii_env neutral_text)
     = [''tokens'', ''sentiment'', ''label'', ''preview'', ''indicators'']
   \<and> prepare_query_from_input ascii_env (raw_of ascii_env neutral_request)
       = Some (neutral_text, neutral_text)
   \<and> (\<exists>a rs. fst (verify ascii_env (Some neutral_request) True []) = Resp200 a rs
         \<and> ''indicators'' \<in> set (dict_keys a))
   \<and> \<not> length (strip ascii_env neutral_text) < 10"
proof -
  have short: "length (strip ascii_env short_text) < 10"
    by (simp add: strip_short) (simp add: u_def)
  have r: "raw_of ascii_env neutral_request \<noteq> []"
    by (simp add: raw_neutral) (simp add: neutral_text_code)
  have p: "prepare_query_from_input ascii_env (raw_of ascii_env neutral_request)
       = Some (neutral_text, neutral_text)"
    by (simp add: raw_neutral prepare_neutral)
  obtain a rs where v: "fst (verify ascii_env (Some neutral_request) True []) = Resp200 a rs"
    using verify_reaches_persistence[OF r p analyze_text_label, of True "[]"]
    by (simp add: Let_def)
  have k1: "dict_keys (analyze_text ascii_env short_text)
     = [''tokens'', ''sentiment'', ''label'', ''preview'']"
    using short indicators_key_presence[where s = short_text and e = ascii_env] by simp
  have k2: "dict_keys (analyze_text ascii_env neutral_text)
     = [''tokens'', ''sentiment'', ''label'', ''preview'', ''indicators'']"
    using neutral_not_degenerate
      indicators_key_presence[where s = neutral_text and e = ascii_env] by simp
  have k3: "''indicators'' \<in> set (dict_keys a)"
    using p v neutral_not_degenerate
      indicators_key_presence[where e = ascii_env and data = neutral_request
        and q = neutral_text and t = neutral_text and ok = True and db = "[]"
        and a = a and rs = rs]
    by simp
  show ?thesis
    using k1 k2 k3 p v neutral_not_degenerate by blast
qed

section \<open>Persistence\<close>

text \<open>
  Claim C8. Once the input is non-empty and the query is prepared, the stored text is the
  first 2000 code points of the analysed text, and a failing insert changes nothing but
  the table and the log: the failure is logged, the table is left as it was, and the
  response carries the same analysis and the same search results as when the insert
  succeeds.
\<close>

theorem persistence_failure_swallowed:
  assumes "raw_of e data \<noteq> []"
    and "prepare_query_from_input e (raw_of e data) = Some (q, t)"
  shows "\<exists>a rs l.
      verify e (Some data) True db
        = (Resp200 a rs, db @ [\<lparr>r_text = take 2000 t, r_label = l\<rparr>], [])
    \<and> length (take 2000 t) \<le> 2000
    \<and> verify e (Some data) False db = (Resp200 a rs, db, [DB_save_failed])
    \<and> rs = (if q \<noteq> [] then google_search e q 6 else [])
    \<and> dict_get a ''label'' = Some (JStr l)
    \<and> (\<forall>k. k \<noteq> ''label'' \<longrightarrow> dict_get a k = dict_get (analyze_text e t) k)"
  using verify_reaches_persistence[OF assms analyze_text_label, of True db]
        verify_reaches_persistence[OF assms analyze_text_label, of False db]
  by (simp add: Let_def dict_get_def update_conv')

theorem persistence_failure_swallowed_witness:
  "raw_of ascii_env neutral_request \<noteq> []
   \<and> prepare_query_from_input ascii_env (raw_of ascii_env neutral_request)
       = Some (neutral_text, neutral_text)
   \<and> (\<exists>a rs l.
        verify ascii_env (Some neutral_request) True []
          = (Resp200 a rs, [\<lparr>r_text = take 2000 neutral_text, r_label = l\<rparr>], [])
      \<and> verify ascii_env (Some neutral_request) False []
          = (Resp200 a rs, [], [DB_save_failed])
      \<and> dict_get a ''label'' = Some (JStr l))"
proof -
  have r: "raw_of ascii_env neutral_request \<noteq> []"
    by (simp add: raw_neutral) (simp add: neutral_text_code)
  have p: "prepare_query_from_input ascii_env (raw_of ascii_env neutral_request)
       = Some (neutral_text, neutral_text)"
    by (simp add: raw_neutral prepare_neutral)
  show ?thesis
    using r p persistence_failure_swallowed[OF r p, of "[]"] by auto
qed

section \<open>The content extractor\<close>

text \<open>
  Whenever no paragraph text is found and the title is not empty, the body is the title,
  whatever the meta elements hold: the meta description is consulted only when the title
  is empty too.
\<close>

lemma page_content_title_first:
  "join_space (take m (paragraph_texts pg)) = [] \<Longrightarrow> title \<noteq> [] \<Longrightarrow>
   page_content pg title m = title"
  by (simp add: page_content_def Let_def)

text \<open>
  Claim C5 says that, when no paragraph yields text, the body falls back first to the meta
  description and only then to the title. The code does the opposite: for a page without
  paragraphs, with the title \<open>Title\<close> and the meta description \<open>Summary\<close>, the body is
  \<open>Title\<close>.
\<close>

theorem extract_title_before_meta:
  "extract_text_from_url titled_env (u ''http://a/'') 15 = (u ''Title'', u ''Title'')"
  by (simp add: extract_text_from_url_def titled_env_def titled_page_def page_content_def
      ascii_env_def strip_def ascii_isspace_def u_def Let_def)

section \<open>The search layer\<close>

text \<open>
  Both search functions return at most \<open>num\<close> results, and every result of the scraping
  function has a string as its snippet.
\<close>

lemma scrape_loop_step:
  assumes "scrape_loop (g # gs) acc = Some rs"
  shows "scrape_loop gs acc = Some rs
       \<or> (\<exists>t l s. scrape_loop gs (acc @ [\<lparr>sr_title = t, sr_url = l, sr_snippet = Some s\<rparr>])
                     = Some rs)"
proof (cases "c_a g")
  case None
  then show ?thesis
    using assms by (simp add: Let_def split: if_splits) blast+
next
  case (Some a)
  show ?thesis
  proof (cases a)
    case None
    with Some assms show ?thesis by simp
  next
    case (Some h)
    with \<open>c_a g = Some a\<close> show ?thesis
      using assms by (simp add: Let_def split: if_splits) blast+
  qed
qed

lemma scrape_loop_length:
  "scrape_loop gs acc = Some rs \<Longrightarrow> length rs \<le> length acc + length gs"
proof (induction gs arbitrary: acc)
  case Nil
  then show ?case by simp
next
  case (Cons g gs)
  from scrape_loop_step[OF Cons.prems] show ?case
  proof
    assume "scrape_loop gs acc = Some rs"
    from Cons.IH[OF this] show ?thesis by simp
  next
    assume "\<exists>t l s. scrape_loop gs
        (acc @ [\<lparr>sr_title = t, sr_url = l, sr_snippet = Some s\<rparr>]) = Some rs"
    then obtain r where "scrape_loop gs (acc @ [r]) = Some rs" by blast
    from Cons.IH[OF this] show ?thesis by simp
  qed
qed

lemma scrape_loop_snippet:
  "scrape_loop gs acc = Some rs \<Longrightarrow> \<forall>r \<in> set acc. sr_snippet r \<noteq> None \<Longrightarrow>
   \<forall>r \<in> set rs. sr_snippet r \<noteq> None"
proof (induction gs arbitrary: acc)
  case Nil
  then show ?case by simp
next
  case (Cons g gs)
  from scrape_loop_step[OF Cons.prems(1)] show ?case
  proof
    assume "scrape_loop gs acc = Some rs"
    from Cons.IH[OF this Cons.prems(2)] show ?thesis .
  next
    assume "\<exists>t l s. scrape_loop gs
        (acc @ [\<lparr>sr_title = t, sr_url = l, sr_snippet = Some s\<rparr>]) = Some rs"
    then obtain t l s where
      "scrape_loop gs (acc @ [\<lparr>sr_title = t, sr_url = l, sr_snippet = Some s\<rparr>]) = Some rs"
      by blast
    then have "\<exists>r. sr_snippet r \<noteq> None \<and> scrape_loop gs (acc @ [r]) = Some rs"
      by (intro exI[where x = "\<lparr>sr_title = t, sr_url = l, sr_snippet = Some s\<rparr>"]) simp
    then obtain r where r: "sr_snippet r \<noteq> None" "scrape_loop gs (acc @ [r]) = Some rs"
      by blast
    have "\<forall>x \<in> set (acc @ [r]). sr_snippet x \<noteq> None"
      using r(1) Cons.prems(2) by simp
    from Cons.IH[OF r(2) this] show ?thesis .
  qed
qed

lemma google_search_scrape_length: "length (google_search_scrape e query num) \<le> num"
proof (cases "scrape_select e query num")
  case None
  then show ?thesis by (simp add: google_search_scrape_def)
next
  case (Some sel)
  obtain s1 s2 s3 where sel: "sel = (s1, s2, s3)" by (cases sel)
  define cs where "cs = (if s1 \<noteq> [] then s1 else if s2 \<noteq> [] then s2 else s3)"
  show ?thesis
  proof (cases "scrape_loop (take num cs) []")
    case None
    with Some sel show ?thesis by (simp add: google_search_scrape_def cs_def)
  next
    case (Some rs)
    from scrape_loop_length[OF this] have "length rs \<le> num" by simp
    with Some \<open>scrape_select e query num = Some sel\<close> sel show ?thesis
      by (simp add: google_search_scrape_def cs_def)
  qed
qed

lemma google_search_scrape_snippet:
  "\<forall>r \<in> set (google_search_scrape e query num). sr_snippet r \<noteq> None"
proof (cases "scrape_select e query num")
  case None
  then show ?thesis by (simp add: google_search_scrape_def)
next
  case (Some sel)
  obtain s1 s2 s3 where sel: "sel = (s1, s2, s3)" by (cases sel)
  define cs where "cs = (if s1 \<noteq> [] then s1 else if s2 \<noteq> [] then s2 else s3)"
  show ?thesis
  proof (cases "scrape_loop (take num cs) []")
    case None
    with Some sel show ?thesis by (simp add: google_search_scrape_def cs_def)
  next
    case (Some rs)
    from scrape_loop_snippet[OF this] have "\<forall>r \<in> set rs. sr_snippet r \<noteq> None" by simp
    with Some \<open>scrape_select e query num = Some sel\<close> sel show ?thesis
      by (simp add: google_search_scrape_def cs_def)
  qed
qed

lemma google_search_length: "length (google_search e query num) \<le> num"
proof -
  have a: "length (google_search_serpapi e query num) \<le> num"
    by (simp add: google_search_serpapi_def split: option.splits)
  show ?thesis using a google_search_scrape_length[of e query num]
    by (simp add: google_search_def)
qed

text \<open>
  Claim C9 says that every returned list has at most the requested number of elements and
  that every element's snippet is a string. The length bound holds, but the snippet of a
  result of the API path is whatever the item holds: for an item without a snippet it is
  \<open>None\<close>, where the scraping path stores the empty string.
\<close>

theorem serpapi_snippet_none:
  "google_search snippetless_env (u ''q'') 6
   = [\<lparr>sr_title = Some (u ''T''), sr_url = Some (u ''http://a/''), sr_snippet = None\<rparr>]"
  by (simp add: google_search_def google_search_serpapi_def snippetless_env_def
      organic_without_snippet_def ascii_env_def u_def)

end
